theory Spec2Isabelle
  imports Complex_Main
begin

section \<open>Strings\<close>

text \<open>
  Python strings are modelled as \<^typ>\<open>string\<close>; a character stands for a code point
  below 256. The helpers below follow the Python built-ins and the \<^verbatim>\<open>posixpath\<close>
  functions that the source calls, restricted to that range of code points.
\<close>

definition digit_char :: "nat \<Rightarrow> char" where
  "digit_char d = ''0123456789'' ! d"

definition digit_val :: "char \<Rightarrow> nat" where
  "digit_val c = of_char c - 48"

definition is_digit :: "char \<Rightarrow> bool" where
  "is_digit c = (48 \<le> (of_char c :: nat) \<and> (of_char c :: nat) \<le> 57)"

text \<open>\<^verbatim>\<open>str(n)\<close> for a non-negative integer: its decimal digits.\<close>

fun show_nat :: "nat \<Rightarrow> string" where
  "show_nat n =
     (if n < 10 then [digit_char n] else show_nat (n div 10) @ [digit_char (n mod 10)])"

declare show_nat.simps [simp del]

text \<open>The format \<^verbatim>\<open>{n:03d}\<close>: decimal digits, padded with zeros on the left to width 3.\<close>

definition fmt_03d :: "nat \<Rightarrow> string" where
  "fmt_03d n = replicate (3 - length (show_nat n)) CHR ''0'' @ show_nat n"

text \<open>The value of a string of decimal digits, most significant digit first.\<close>

definition digits_val :: "string \<Rightarrow> nat" where
  "digits_val s = foldl (\<lambda>a c. 10 * a + digit_val c) 0 s"

text \<open>
  \<^verbatim>\<open>str.isspace\<close> on one character, for code points below 256: tab, line feed, vertical
  tab, form feed, carriage return, the four separators 28 to 31, space, NEL (133) and the
  no-break space (160).
\<close>

definition isspace :: "char \<Rightarrow> bool" where
  "isspace c = ((of_char c :: nat) \<in> {9, 10, 11, 12, 13, 28, 29, 30, 31, 32, 133, 160})"

text \<open>\<^verbatim>\<open>str.strip()\<close>: whitespace removed from both ends.\<close>

definition strip :: "string \<Rightarrow> string" where
  "strip s = rev (dropWhile isspace (rev (dropWhile isspace s)))"

text \<open>\<^verbatim>\<open>str.lower()\<close> on the ASCII letters.\<close>

definition lower_char :: "char \<Rightarrow> char" where
  "lower_char c =
     (if 65 \<le> (of_char c :: nat) \<and> (of_char c :: nat) \<le> 90
      then char_of ((of_char c :: nat) + 32) else c)"

definition lower :: "string \<Rightarrow> string" where
  "lower s = map lower_char s"

text \<open>\<^verbatim>\<open>s.startswith(p)\<close>, \<^verbatim>\<open>s.endswith(p)\<close> and \<^verbatim>\<open>sub in s\<close>.\<close>

definition startswith :: "string \<Rightarrow> string \<Rightarrow> bool" where
  "startswith s p = (take (length p) s = p)"

definition endswith :: "string \<Rightarrow> string \<Rightarrow> bool" where
  "endswith s p = startswith (rev s) (rev p)"

fun contains :: "string \<Rightarrow> string \<Rightarrow> bool" where
  "contains [] sub = (sub = [])"
| "contains (c # cs) sub = (startswith (c # cs) sub \<or> contains cs sub)"

text \<open>
  \<^verbatim>\<open>s.split(sep)\<close> with a one-character separator: the pieces between the separators;
  never an empty list.
\<close>

fun split_on :: "char \<Rightarrow> string \<Rightarrow> string list" where
  "split_on sep [] = [[]]"
| "split_on sep (c # cs) =
     (if c = sep then [] # split_on sep cs
      else (case split_on sep cs of
              [] \<Rightarrow> [[c]]
            | x # xs \<Rightarrow> (c # x) # xs))"

text \<open>
  \<^verbatim>\<open>int(s)\<close> on a string: surrounding whitespace is dropped, one sign is allowed, and
  the rest has to be a non-empty run of decimal digits; anything else is a
  \<^verbatim>\<open>ValueError\<close>, here \<open>None\<close>. Python also allows single underscores between digits;
  the source only parses pieces of a split at underscores, which hold none.
\<close>

definition py_int :: "string \<Rightarrow> int option" where
  "py_int s =
     (let t = strip s;
          neg = (t \<noteq> [] \<and> hd t = CHR ''-'');
          ds = (if t \<noteq> [] \<and> (hd t = CHR ''-'' \<or> hd t = CHR ''+'') then tl t else t)
      in if ds \<noteq> [] \<and> list_all is_digit ds
         then Some (if neg then - int (digits_val ds) else int (digits_val ds))
         else None)"

text \<open>\<^verbatim>\<open>os.path.join(a, b)\<close>, \<^verbatim>\<open>os.path.basename(p)\<close> and the root of
  \<^verbatim>\<open>os.path.splitext(p)\<close> for a name without directory part, on a POSIX system.\<close>

definition path_join :: "string \<Rightarrow> string \<Rightarrow> string" where
  "path_join a b =
     (if startswith b ''/'' then b
      else if a = [] \<or> endswith a ''/'' then a @ b
      else a @ ''/'' @ b)"

definition basename :: "string \<Rightarrow> string" where
  "basename p = rev (takeWhile (\<lambda>c. c \<noteq> CHR ''/'') (rev p))"

definition splitext_root :: "string \<Rightarrow> string" where
  "splitext_root name =
     (let ext = takeWhile (\<lambda>c. c \<noteq> CHR ''.'') (rev name);
          stem = drop (Suc (length ext)) (rev name)
      in if length ext < length name \<and> list_ex (\<lambda>c. c \<noteq> CHR ''.'') stem
         then rev stem else name)"

section \<open>Natural sort order of file names\<close>

text \<open>
  Natural sort order compares strings piece by piece, where a maximal run of digits is one
  piece and counts as the number it denotes, and a maximal run of other characters is one
  piece compared as text. A number comes before text.
\<close>

datatype chunk = Digits string | Text string

fun push_char :: "char \<Rightarrow> chunk list \<Rightarrow> chunk list" where
  "push_char c [] = [if is_digit c then Digits [c] else Text [c]]"
| "push_char c (Digits ds # r) =
     (if is_digit c then Digits (c # ds) # r else Text [c] # Digits ds # r)"
| "push_char c (Text t # r) =
     (if is_digit c then Digits [c] # Text t # r else Text (c # t) # r)"

definition natural_key :: "string \<Rightarrow> chunk list" where
  "natural_key s = foldr push_char s []"

fun text_less :: "string \<Rightarrow> string \<Rightarrow> bool" where
  "text_less [] [] = False"
| "text_less [] (y # ys) = True"
| "text_less (x # xs) [] = False"
| "text_less (x # xs) (y # ys) =
     ((of_char x :: nat) < of_char y \<or> (x = y \<and> text_less xs ys))"

fun chunk_less :: "chunk \<Rightarrow> chunk \<Rightarrow> bool" where
  "chunk_less (Digits a) (Digits b) = (digits_val a < digits_val b)"
| "chunk_less (Digits a) (Text b) = True"
| "chunk_less (Text a) (Digits b) = False"
| "chunk_less (Text a) (Text b) = text_less a b"

fun chunk_equiv :: "chunk \<Rightarrow> chunk \<Rightarrow> bool" where
  "chunk_equiv (Digits a) (Digits b) = (digits_val a = digits_val b)"
| "chunk_equiv (Text a) (Text b) = (a = b)"
| "chunk_equiv _ _ = False"

fun chunks_less :: "chunk list \<Rightarrow> chunk list \<Rightarrow> bool" where
  "chunks_less [] [] = False"
| "chunks_less [] (y # ys) = True"
| "chunks_less (x # xs) [] = False"
| "chunks_less (x # xs) (y # ys) =
     (chunk_less x y \<or> (chunk_equiv x y \<and> chunks_less xs ys))"

definition natural_less :: "string \<Rightarrow> string \<Rightarrow> bool" where
  "natural_less a b = chunks_less (natural_key a) (natural_key b)"

section \<open>Exceptions\<close>

text \<open>
  An exception is a value. Every constructor but the last carries the text that
  \<^verbatim>\<open>str(e)\<close> gives. All of them are subclasses of \<^verbatim>\<open>Exception\<close>, so a clause
  \<^verbatim>\<open>except Exception\<close> catches each of them. The detail of an \<^verbatim>\<open>HTTPException\<close> is a
  string or a dictionary of strings, kept in the order of the source; its text is the
  status, a colon and the detail, a dictionary printed with quoted keys and values.
\<close>

datatype detail = DetailStr string | DetailDict "(string \<times> string) list"

datatype exn =
    FileNotFoundError string
  | StorageApiError string
  | ResourceExhausted string
  | PyException string
  | HTTPException nat detail

fun join_with :: "string \<Rightarrow> string list \<Rightarrow> string" where
  "join_with sep [] = []"
| "join_with sep [x] = x"
| "join_with sep (x # y # ys) = x @ sep @ join_with sep (y # ys)"

definition quoted :: "string \<Rightarrow> string" where
  "quoted s = [CHR 0x27] @ s @ [CHR 0x27]"

fun detail_str :: "detail \<Rightarrow> string" where
  "detail_str (DetailStr s) = s"
| "detail_str (DetailDict kvs) =
     ''{'' @ join_with '', '' (map (\<lambda>(k, v). quoted k @ '': '' @ quoted v) kvs) @ ''}''"

fun exn_str :: "exn \<Rightarrow> string" where
  "exn_str (FileNotFoundError m) = m"
| "exn_str (StorageApiError m) = m"
| "exn_str (ResourceExhausted m) = m"
| "exn_str (PyException m) = m"
| "exn_str (HTTPException code d) = show_nat code @ '': '' @ detail_str d"

section \<open>The rasterizer (pdf2img.py)\<close>

text \<open>
  The PDF library is outside the repository. What it does on a document is data of the
  model: opening the file either raises or gives the pages, and rendering and saving one
  page at the requested resolution either succeeds or raises.
\<close>

datatype page = PageOk | PageFault string

datatype pdf_open = OpenRaises string | Document "page list"

text \<open>
  The result of the rasterizer: the image paths it returns, the files it has written to
  the output folder, and the line it prints.
\<close>

record raster_result =
  image_paths :: "string list"
  written :: "string list"
  printed :: string

text \<open>
  The loop over \<^verbatim>\<open>range(len(pdf_document))\<close>: \<open>page_num\<close> is the 0-based index of the
  next page, \<open>acc\<close> the image paths so far. A fault leaves the loop with the message and the
  files written before it.
\<close>

fun render_pages :: "string \<Rightarrow> nat \<Rightarrow> page list \<Rightarrow> string list \<Rightarrow> (string \<times> string list) + string list" where
  "render_pages output_folder page_num [] acc = Inr acc"
| "render_pages output_folder page_num (PageFault e # ps) acc = Inl (e, acc)"
| "render_pages output_folder page_num (PageOk # ps) acc =
     render_pages output_folder (page_num + 1) ps
       (acc @ [path_join output_folder (''page_'' @ fmt_03d (page_num + 1) @ ''.jpg'')])"

definition convert_pdf_to_images :: "bool \<Rightarrow> pdf_open \<Rightarrow> string \<Rightarrow> string \<Rightarrow> exn + raster_result" where
  "convert_pdf_to_images pdf_exists doc pdf_path output_folder =
     (if \<not> pdf_exists
      then Inl (FileNotFoundError (''The PDF file '' @ pdf_path @ '' does not exist.''))
      else (case doc of
              OpenRaises e \<Rightarrow>
                Inr \<lparr>image_paths = [], written = [],
                     printed = ''An error occurred during PDF conversion: '' @ e\<rparr>
            | Document pages \<Rightarrow>
                (case render_pages output_folder 0 pages [] of
                   Inl (e, files) \<Rightarrow>
                     Inr \<lparr>image_paths = [], written = files,
                          printed = ''An error occurred during PDF conversion: '' @ e\<rparr>
                 | Inr paths \<Rightarrow>
                     Inr \<lparr>image_paths = paths, written = paths,
                          printed = ''Successfully converted '' @ show_nat (length paths)
                                    @ '' pages to images in '' @ output_folder\<rparr>)))"

text \<open>A valid PDF: the document opens and every page renders.\<close>

definition valid_pdf :: "pdf_open \<Rightarrow> bool" where
  "valid_pdf doc =
     (case doc of OpenRaises e \<Rightarrow> False | Document pages \<Rightarrow> list_all (\<lambda>p. p = PageOk) pages)"

definition page_count :: "pdf_open \<Rightarrow> nat" where
  "page_count doc = (case doc of OpenRaises e \<Rightarrow> 0 | Document pages \<Rightarrow> length pages)"

text \<open>The name of the image of the page with 1-based number \<open>n\<close>.\<close>

definition page_image_name :: "nat \<Rightarrow> string" where
  "page_image_name n = ''page_'' @ fmt_03d n @ ''.jpg''"

section \<open>The text recognizer (visionOcr.py)\<close>

text \<open>
  \<open>extract_text_body\<close> is the body of the \<^verbatim>\<open>try\<close> in
  \<^verbatim>\<open>ImageTextExtractor.extract_text_from_image\<close>. Reading the image file and the call of
  the OCR service are outside the repository: \<open>file_read\<close> says whether the read raises,
  \<open>detection\<close> is what \<^verbatim>\<open>text_detection\<close> does, an exception or the descriptions of the
  text annotations of the response.
\<close>

definition extract_text_body :: "exn + unit \<Rightarrow> exn + string list \<Rightarrow> exn + string" where
  "extract_text_body file_read detection =
     (case file_read of
        Inl e \<Rightarrow> Inl e
      | Inr u \<Rightarrow>
          (case detection of
             Inl e \<Rightarrow> Inl e
           | Inr texts \<Rightarrow>
               (if texts \<noteq> [] then Inr (hd texts) else Inr ''No text found in image'')))"

definition extract_text_from_image :: "exn + unit \<Rightarrow> exn + string list \<Rightarrow> exn + string" where
  "extract_text_from_image file_read detection =
     (case extract_text_body file_read detection of
        Inr s \<Rightarrow> Inr s
      | Inl e \<Rightarrow> Inr (''Error processing image: '' @ exn_str e))"

section \<open>The answer synthesizer (main.py, ask_gemini)\<close>

definition flash :: string where
  "flash = ''models/gemini-2.5-flash''"

definition flash_lite :: string where
  "flash_lite = ''models/gemini-2.5-flash-lite''"

definition build_prompt :: "string \<Rightarrow> string \<Rightarrow> string" where
  "build_prompt question context =
     ''You are a helpful assistant. Use the following context from a PDF to answer the user''
     @ [CHR 0x27] @ ''s question.'' @ [CHR 0x0A, CHR 0x0A]
     @ ''Context:'' @ [CHR 0x0A] @ context @ [CHR 0x0A, CHR 0x0A]
     @ ''Question: '' @ question @ [CHR 0x0A]
     @ ''Answer:''"

definition fallback_note :: string where
  "fallback_note = [CHR 0x0A, CHR 0x0A] @ ''(Note: Fallback to Flash-Lite due to quota limits.)''"

definition sorry_both :: string where
  "sorry_both = ''Sorry, the AI service is currently rate-limited. Please try again later. (Both Flash and Flash-Lite quota exceeded.)''"

definition sorry_lite :: string where
  "sorry_lite = ''Sorry, the AI service is currently rate-limited. Please try again later. (Flash-Lite quota exceeded.)''"

text \<open>
  The generative service is outside the repository: \<open>generate m prompt\<close> is what creating
  the model \<open>m\<close>, calling \<^verbatim>\<open>generate_content\<close> and reading \<^verbatim>\<open>response.text\<close> do
  together, an exception or the text. \<open>ask_gemini\<close> returns its result, where \<open>Inl\<close> would
  be an exception that leaves the function, and the list of the models it has called, in
  order.
\<close>

definition ask_gemini :: "(string \<Rightarrow> string \<Rightarrow> exn + string) \<Rightarrow> string \<Rightarrow> string \<Rightarrow> string \<Rightarrow> (exn + string) \<times> string list" where
  "ask_gemini generate question context gemini_model =
     (let prompt = build_prompt question context
      in case generate gemini_model prompt of
           Inr txt \<Rightarrow> (Inr (strip txt), [gemini_model])
         | Inl (ResourceExhausted m) \<Rightarrow>
             (if gemini_model \<noteq> flash_lite
              then (case generate flash_lite prompt of
                      Inr txt \<Rightarrow> (Inr (strip txt @ fallback_note), [gemini_model, flash_lite])
                    | Inl e2 \<Rightarrow> (Inr sorry_both, [gemini_model, flash_lite]))
              else (Inr sorry_lite, [gemini_model]))
         | Inl e \<Rightarrow>
             (Inr (''Sorry, an error occurred with the AI service: '' @ exn_str e), [gemini_model]))"

section \<open>The upload handler (main.py, upload_pdf)\<close>

subsection \<open>The world and the services\<close>

text \<open>
  The handler works on a database with the tables \<^verbatim>\<open>pdfs\<close> and \<^verbatim>\<open>embeddings\<close>, on
  an object storage with buckets, and on local files. The world below holds their state,
  and the list of the things the handler has done to the outside, in order: calls of the
  services (whatever their outcome), pauses, and lines logged or printed.
\<close>

record pdf_row =
  pdf_name :: string
  pdf_upload_date :: string
  pdf_storage_path :: "string option"

record embedding_row =
  emb_pdf_id :: string
  emb_page_number :: "int option"
  emb_text :: string
  emb_vector :: "real list"

datatype event =
    LogInfo string
  | LogError string
  | Print string
  | Sleep nat
  | DbInsertPdf string
  | DbUpdatePdf string
  | DbDeletePdf string
  | DbInsertEmbedding string "int option"
  | StorageUpload string string
  | StorageDownload string string

record world =
  pdfs :: "string \<rightharpoonup> pdf_row"
  embeddings :: "embedding_row list"
  objects :: "(string \<times> string) list"
  local_files :: "string list"
  events :: "event list"

text \<open>
  What the services answer is data of the model. A call of a service either returns or
  raises; an upload to the storage may also return a result that carries an
  \<^verbatim>\<open>error\<close> attribute, which the source tests with \<^verbatim>\<open>getattr(res, "error", None)\<close>.
  The uploads of the page loop are tried several times, so their answer depends on the
  storage path and on the number of the attempt. The database gives the id of the new row.
  A call that raises leaves the state of its service as it was.
\<close>

datatype upload_result = UploadOk | UploadError string | UploadRaises exn

record env =
  uuid4 :: string
  utcnow :: string
  db_insert_pdf :: "exn + string"
  pdf_upload :: upload_result
  db_set_storage_path :: "exn + unit"
  pdf_download :: "exn + unit"
  db_delete_pdf :: "exn + unit"
  pdf_document :: pdf_open
  image_upload :: "string \<Rightarrow> nat \<Rightarrow> upload_result"
  text_detection :: "string \<Rightarrow> exn + string list"
  text_upload :: "string \<Rightarrow> nat \<Rightarrow> upload_result"
  encode :: "string \<Rightarrow> real list"
  db_insert_embedding :: "string \<Rightarrow> exn + unit"

text \<open>The uploaded file: its name and the number of bytes of its content.\<close>

record upload_file =
  filename :: string
  content_length :: nat

text \<open>The body of the response of a completed upload.\<close>

record upload_body =
  r_message :: string
  r_pdf_id :: string
  r_pdf_name :: string
  r_upload_date :: string
  r_storage_path :: string
  r_uploaded_images :: "string list"
  r_uploaded_texts :: "string list"

datatype response = JSONResponse upload_body | Raised exn

text \<open>
  The status the client sees: 200 for the JSON response, the status of an
  \<^verbatim>\<open>HTTPException\<close>, and 500 for any other exception that leaves the handler, which
  the web framework answers with an internal server error.
\<close>

fun status_code :: "response \<Rightarrow> nat" where
  "status_code (JSONResponse b) = 200"
| "status_code (Raised (HTTPException code d)) = code"
| "status_code (Raised e) = 500"

definition emit :: "event \<Rightarrow> world \<Rightarrow> world" where
  "emit e w = w\<lparr>events := events w @ [e]\<rparr>"

definition no_such_file :: "string \<Rightarrow> string" where
  "no_such_file p = ''[Errno 2] No such file or directory: '' @ [CHR 0x27] @ p @ [CHR 0x27]"

definition write_file :: "string \<Rightarrow> world \<Rightarrow> world" where
  "write_file p w = w\<lparr>local_files := List.insert p (local_files w)\<rparr>"

definition os_remove :: "string \<Rightarrow> world \<Rightarrow> exn + world" where
  "os_remove p w =
     (if p \<in> set (local_files w)
      then Inr (w\<lparr>local_files := removeAll p (local_files w)\<rparr>)
      else Inl (FileNotFoundError (no_such_file p)))"

definition rmtree :: "string \<Rightarrow> world \<Rightarrow> world" where
  "rmtree dir w = w\<lparr>local_files := filter (\<lambda>p. \<not> startswith p (dir @ ''/'')) (local_files w)\<rparr>"

subsection \<open>The size limit\<close>

text \<open>
  \<^verbatim>\<open>file_size / (1024 * 1024)\<close> is a float. For a size below \<open>2 ^ 53\<close> bytes the
  division by a power of two is exact, so the comparison with 50 is the comparison of
  the size with \<open>50 * 2 ^ 20\<close>, and the format \<^verbatim>\<open>.1f\<close> rounds the exact quotient to one
  decimal, a tie to the even digit.
\<close>

definition supabase_free_tier_limit_mb :: nat where
  "supabase_free_tier_limit_mb = 50"

definition exceeds_limit :: "nat \<Rightarrow> bool" where
  "exceeds_limit file_size = (file_size > supabase_free_tier_limit_mb * (1024 * 1024))"

definition fmt_1f_mb :: "nat \<Rightarrow> string" where
  "fmt_1f_mb file_size =
     (let n = 10 * file_size;
          q = n div (1024 * 1024);
          r = n mod (1024 * 1024);
          t = (if 2 * r > 1024 * 1024 \<or> (2 * r = 1024 * 1024 \<and> odd q) then q + 1 else q)
      in show_nat (t div 10) @ ''.'' @ show_nat (t mod 10))"

definition too_large_detail :: "string \<Rightarrow> nat \<Rightarrow> detail" where
  "too_large_detail err file_size =
     DetailDict
       [(''error'', err),
        (''file_size_mb'', fmt_1f_mb file_size @ ''MB''),
        (''supabase_free_tier_limit'', show_nat supabase_free_tier_limit_mb @ ''MB''),
        (''message'', ''Your file ('' @ fmt_1f_mb file_size @ ''MB) exceeds the Supabase free tier limit of ''
                      @ show_nat supabase_free_tier_limit_mb @ ''MB per file.''),
        (''solution'', ''Upgrade to Supabase Pro ($25/month) for 5GB file limits'')]"

subsection \<open>One upload with its retries\<close>

text \<open>
  The two retry loops of the page processing, for the page image and for the text file,
  are the same code with other names, buckets and log lines; \<open>upload_kind\<close> tells them
  apart.
\<close>

datatype upload_kind = ImageUpload | TextUpload

definition max_retries :: nat where
  "max_retries = 3"

fun start_msg :: "upload_kind \<Rightarrow> string \<Rightarrow> nat \<Rightarrow> string" where
  "start_msg ImageUpload name attempt =
     ''Starting upload for '' @ name @ '' (attempt '' @ show_nat (attempt + 1) @ ''/'' @ show_nat max_retries @ '')''"
| "start_msg TextUpload name attempt =
     ''Starting text upload for '' @ name @ '' (attempt '' @ show_nat (attempt + 1) @ ''/'' @ show_nat max_retries @ '')''"

fun error_msg :: "upload_kind \<Rightarrow> string \<Rightarrow> string \<Rightarrow> string" where
  "error_msg ImageUpload name msg = ''Failed to upload image '' @ name @ '': '' @ msg"
| "error_msg TextUpload name msg = ''Failed to upload text file '' @ name @ '': '' @ msg"

fun retry_msg :: "upload_kind \<Rightarrow> string \<Rightarrow> nat \<Rightarrow> string" where
  "retry_msg ImageUpload name attempt =
     ''Retrying upload for '' @ name @ '' (attempt '' @ show_nat (attempt + 2) @ ''/'' @ show_nat max_retries @ '')''"
| "retry_msg TextUpload name attempt =
     ''Retrying text upload for '' @ name @ '' (attempt '' @ show_nat (attempt + 2) @ ''/'' @ show_nat max_retries @ '')''"

fun success_msg :: "upload_kind \<Rightarrow> string \<Rightarrow> string" where
  "success_msg ImageUpload name = ''Successfully uploaded '' @ name"
| "success_msg TextUpload name = ''Successfully uploaded text file '' @ name"

fun exception_msg :: "upload_kind \<Rightarrow> string \<Rightarrow> nat \<Rightarrow> exn \<Rightarrow> string" where
  "exception_msg ImageUpload name attempt e =
     ''Upload attempt '' @ show_nat (attempt + 1) @ '' failed for '' @ name @ '': '' @ exn_str e"
| "exception_msg TextUpload name attempt e =
     ''Text upload attempt '' @ show_nat (attempt + 1) @ '' failed for '' @ name @ '': '' @ exn_str e"

fun exhausted_msg :: "upload_kind \<Rightarrow> string \<Rightarrow> string" where
  "exhausted_msg ImageUpload name =
     ''Failed to upload '' @ name @ '' after '' @ show_nat max_retries @ '' attempts''"
| "exhausted_msg TextUpload name =
     ''Failed to upload text file '' @ name @ '' after '' @ show_nat max_retries @ '' attempts''"

text \<open>How one pass of a \<^verbatim>\<open>for\<close> loop ends: at \<^verbatim>\<open>break\<close>, or by going on to the next value.\<close>

datatype loop_exit = Break | Next

text \<open>The \<^verbatim>\<open>except Exception\<close> clause of an attempt.\<close>

definition after_exception :: "upload_kind \<Rightarrow> string \<Rightarrow> nat \<Rightarrow> exn \<Rightarrow> world \<Rightarrow> loop_exit \<times> world" where
  "after_exception kind name attempt e w =
     (let w1 = emit (LogError (exception_msg kind name attempt e)) w
      in if attempt < max_retries - 1
         then (Next, emit (Sleep (2 ^ attempt)) (emit (LogInfo (retry_msg kind name attempt)) w1))
         else (Next, emit (LogError (exhausted_msg kind name)) w1))"

text \<open>
  One pass of the loop \<^verbatim>\<open>for attempt in range(max_retries)\<close>: the local file is opened,
  the upload is called, and its answer decides.
\<close>

definition upload_attempt :: "upload_kind \<Rightarrow> string \<Rightarrow> (nat \<Rightarrow> upload_result) \<Rightarrow> string \<Rightarrow> string \<Rightarrow> string \<Rightarrow> nat \<Rightarrow> world \<Rightarrow> loop_exit \<times> world" where
  "upload_attempt kind bucket upload local_path name storage_path attempt w =
     (if local_path \<notin> set (local_files w)
      then after_exception kind name attempt (FileNotFoundError (no_such_file local_path)) w
      else
        (let w1 = emit (LogInfo (start_msg kind name attempt)) w;
             w2 = emit (StorageUpload bucket storage_path) w1
         in case upload attempt of
              UploadRaises e \<Rightarrow> after_exception kind name attempt e w2
            | UploadError msg \<Rightarrow>
                (let w3 = emit (LogError (error_msg kind name msg)) w2
                 in if attempt < max_retries - 1
                    then (Next, emit (LogInfo (retry_msg kind name attempt)) w3)
                    else (Next, w3))
            | UploadOk \<Rightarrow>
                (Break, emit (LogInfo (success_msg kind name))
                          (w2\<lparr>objects := objects w2 @ [(bucket, storage_path)]\<rparr>))))"

fun upload_with_retry :: "upload_kind \<Rightarrow> string \<Rightarrow> (nat \<Rightarrow> upload_result) \<Rightarrow> string \<Rightarrow> string \<Rightarrow> string \<Rightarrow> nat list \<Rightarrow> world \<times> string list \<Rightarrow> world \<times> string list" where
  "upload_with_retry kind bucket upload local_path name storage_path [] (w, uploaded) = (w, uploaded)"
| "upload_with_retry kind bucket upload local_path name storage_path (attempt # rest) (w, uploaded) =
     (case upload_attempt kind bucket upload local_path name storage_path attempt w of
        (Break, w') \<Rightarrow> (w', uploaded @ [storage_path])
      | (Next, w') \<Rightarrow>
          upload_with_retry kind bucket upload local_path name storage_path rest (w', uploaded))"

subsection \<open>The page loops\<close>

text \<open>Step 2 of the handler: the images go to the bucket \<^verbatim>\<open>pdfimg\<close>.\<close>

fun upload_images :: "env \<Rightarrow> string \<Rightarrow> string list \<Rightarrow> world \<times> string list \<Rightarrow> world \<times> string list" where
  "upload_images env pdf_id [] s = s"
| "upload_images env pdf_id (img_path # rest) s =
     upload_images env pdf_id rest
       (let img_name = basename img_path;
            img_storage_path = pdf_id @ ''/'' @ img_name
        in upload_with_retry ImageUpload ''pdfimg'' (image_upload env img_storage_path)
             img_path img_name img_storage_path [0..<max_retries] s)"

text \<open>
  The page number of an embedding record: the second piece of the name of the text file,
  read as an integer; \<open>None\<close> when there is no second piece or it is not an integer.
\<close>

definition page_number_of :: "string \<Rightarrow> int option" where
  "page_number_of txt_name =
     (case split_on CHR ''_'' txt_name of
        a # b # rest \<Rightarrow> py_int b
      | _ \<Rightarrow> None)"

definition txt_name_of :: "string \<Rightarrow> string" where
  "txt_name_of img_path = splitext_root (basename img_path) @ ''_text.txt''"

text \<open>Step 3 of the handler, for one image: text, text file, upload, embedding record.\<close>

definition process_text_page :: "env \<Rightarrow> string \<Rightarrow> string \<Rightarrow> string \<Rightarrow> world \<times> string list \<Rightarrow> (exn \<times> world) + (world \<times> string list)" where
  "process_text_page env pdf_id output_dir img_path s =
     (case s of (w, uploaded_texts) \<Rightarrow>
       (case extract_text_from_image
               (if img_path \<in> set (local_files w) then Inr ()
                else Inl (FileNotFoundError (no_such_file img_path)))
               (text_detection env img_path) of
          Inl e \<Rightarrow> Inl (e, w)
        | Inr txt \<Rightarrow>
            (let txt_name = txt_name_of img_path;
                 txt_local_path = path_join output_dir txt_name;
                 w1 = write_file txt_local_path w;
                 txt_storage_path = pdf_id @ ''/'' @ txt_name;
                 s2 = upload_with_retry TextUpload ''pdftxt'' (text_upload env txt_storage_path)
                        txt_local_path txt_name txt_storage_path [0..<max_retries] (w1, uploaded_texts);
                 page_number = page_number_of txt_name;
                 embedding = encode env txt;
                 w3 = emit (DbInsertEmbedding pdf_id page_number) (fst s2);
                 w4 = (case db_insert_embedding env txt_name of
                         Inr u \<Rightarrow>
                           w3\<lparr>embeddings := embeddings w3 @
                                [\<lparr>emb_pdf_id = pdf_id, emb_page_number = page_number,
                                  emb_text = txt, emb_vector = embedding\<rparr>]\<rparr>
                       | Inl e \<Rightarrow>
                           emit (LogError (''Failed to insert embedding for '' @ txt_name @ '': '' @ exn_str e)) w3)
             in Inr (w4, snd s2))))"

fun process_texts :: "env \<Rightarrow> string \<Rightarrow> string \<Rightarrow> string list \<Rightarrow> world \<times> string list \<Rightarrow> (exn \<times> world) + (world \<times> string list)" where
  "process_texts env pdf_id output_dir [] s = Inr s"
| "process_texts env pdf_id output_dir (img_path # rest) s =
     (case process_text_page env pdf_id output_dir img_path s of
        Inl err \<Rightarrow> Inl err
      | Inr s' \<Rightarrow> process_texts env pdf_id output_dir rest s')"

subsection \<open>The handler\<close>

text \<open>
  Creating the OCR client, creating folders, writing local files, computing an
  embedding and removing the output folder are taken to succeed; removing a file that is
  not there raises, as \<^verbatim>\<open>os.remove\<close> does.
\<close>

definition success_message :: string where
  "success_message = ''PDF uploaded, images extracted and uploaded, text extracted and uploaded.''"

text \<open>From the conversion to images to the response.\<close>

definition ingest_pages :: "env \<Rightarrow> upload_file \<Rightarrow> string \<Rightarrow> string \<Rightarrow> string \<Rightarrow> world \<Rightarrow> response \<times> world" where
  "ingest_pages env file pdf_id upload_date storage_path w =
     (let downloaded_pdf_path = pdf_id @ ''_'' @ filename file;
          output_dir = ''images/'' @ pdf_id
      in case convert_pdf_to_images (downloaded_pdf_path \<in> set (local_files w))
                (pdf_document env) downloaded_pdf_path output_dir of
           Inl e \<Rightarrow> (Raised e, w)
         | Inr r \<Rightarrow>
             (let w1 = emit (Print (printed r)) (fold write_file (written r) w);
                  s2 = upload_images env pdf_id (image_paths r) (w1, [])
              in case process_texts env pdf_id output_dir (image_paths r) (fst s2, []) of
                   Inl (e, w3) \<Rightarrow> (Raised e, w3)
                 | Inr (w3, uploaded_texts) \<Rightarrow>
                     (case os_remove downloaded_pdf_path (rmtree output_dir w3) of
                        Inl e \<Rightarrow> (Raised e, rmtree output_dir w3)
                      | Inr w4 \<Rightarrow>
                          (JSONResponse
                             \<lparr>r_message = success_message,
                              r_pdf_id = pdf_id,
                              r_pdf_name = filename file,
                              r_upload_date = upload_date,
                              r_storage_path = storage_path,
                              r_uploaded_images = snd s2,
                              r_uploaded_texts = uploaded_texts\<rparr>, w4))))"

text \<open>The stored PDF is downloaded again; a failure deletes the row of the document.\<close>

definition verify_download :: "env \<Rightarrow> upload_file \<Rightarrow> string \<Rightarrow> string \<Rightarrow> string \<Rightarrow> world \<Rightarrow> response \<times> world" where
  "verify_download env file pdf_id upload_date storage_path w =
     (let downloaded_pdf_path = pdf_id @ ''_'' @ filename file;
          w1 = emit (StorageDownload ''pdfs'' storage_path) w
      in case pdf_download env of
           Inr u \<Rightarrow>
             ingest_pages env file pdf_id upload_date storage_path
               (emit (LogInfo (''Successfully downloaded PDF for processing: '' @ filename file))
                  (write_file downloaded_pdf_path w1))
         | Inl e \<Rightarrow>
             (let w2 = emit (LogError (''Failed to download PDF from storage: '' @ exn_str e)) w1;
                  w3 = emit (DbDeletePdf pdf_id) w2;
                  w4 = (case db_delete_pdf env of
                          Inr u \<Rightarrow> w3\<lparr>pdfs := (pdfs w3)(pdf_id := None)\<rparr>
                        | Inl cleanup_error \<Rightarrow>
                            emit (LogError (''Failed to cleanup database entry: '' @ exn_str cleanup_error)) w3)
              in (Raised (HTTPException 500
                    (DetailDict
                       [(''error'', ''PDF upload verification failed''),
                        (''message'', ''PDF was not uploaded successfully to storage. Error: '' @ exn_str e),
                        (''file'', filename file)])), w4)))"

text \<open>The test of the text of a \<^verbatim>\<open>StorageApiError\<close> for a payload that is too large.\<close>

definition payload_too_large :: "string \<Rightarrow> bool" where
  "payload_too_large m =
     (contains m ''413'' \<or> contains (lower m) ''payload too large''
      \<or> contains (lower m) ''exceeded the maximum allowed size'')"

text \<open>
  The body of the \<^verbatim>\<open>try\<close> around the upload of the PDF. The
  \<^verbatim>\<open>HTTPException\<close> for a result with an \<^verbatim>\<open>error\<close> attribute is raised inside the
  \<^verbatim>\<open>try\<close>, after the temporary file has been removed.
\<close>

definition upload_pdf_body :: "env \<Rightarrow> string \<Rightarrow> string \<Rightarrow> world \<Rightarrow> (exn \<times> world) + world" where
  "upload_pdf_body env storage_path temp_filename w =
     (let w1 = emit (StorageUpload ''pdfs'' storage_path) w
      in case pdf_upload env of
           UploadRaises e \<Rightarrow> Inl (e, w1)
         | UploadError msg \<Rightarrow>
             (case os_remove temp_filename w1 of
                Inl e \<Rightarrow> Inl (e, w1)
              | Inr w2 \<Rightarrow> Inl (HTTPException 500 (DetailStr (''Storage error: '' @ msg)), w2))
         | UploadOk \<Rightarrow> Inr (w1\<lparr>objects := objects w1 @ [(''pdfs'', storage_path)]\<rparr>))"

text \<open>The upload of the PDF with its \<^verbatim>\<open>except\<close> clauses, the update of the row and
  the removal of the temporary file.\<close>

definition store_pdf :: "env \<Rightarrow> upload_file \<Rightarrow> string \<Rightarrow> string \<Rightarrow> string \<Rightarrow> string \<Rightarrow> world \<Rightarrow> response \<times> world" where
  "store_pdf env file pdf_id upload_date storage_path temp_filename w =
     (case upload_pdf_body env storage_path temp_filename w of
        Inl (StorageApiError m, w1) \<Rightarrow>
          (case os_remove temp_filename w1 of
             Inl e \<Rightarrow> (Raised e, w1)
           | Inr w2 \<Rightarrow>
               (if payload_too_large m
                then (Raised (HTTPException 413
                        (too_large_detail ''File too large for Supabase storage'' (content_length file))), w2)
                else (Raised (HTTPException 500 (DetailStr (''Storage error: '' @ m))), w2)))
      | Inl (e, w1) \<Rightarrow>
          (case os_remove temp_filename w1 of
             Inl e' \<Rightarrow> (Raised e', w1)
           | Inr w2 \<Rightarrow>
               (Raised (HTTPException 500 (DetailStr (''PDF upload failed: '' @ exn_str e))),
                emit (LogError (''PDF upload failed for '' @ filename file @ '': '' @ exn_str e)) w2))
      | Inr w1 \<Rightarrow>
          (let w2 = emit (DbUpdatePdf pdf_id) w1
           in case db_set_storage_path env of
                Inl e \<Rightarrow>
                  (case os_remove temp_filename w2 of
                     Inl e' \<Rightarrow> (Raised e', w2)
                   | Inr w3 \<Rightarrow>
                       (Raised (HTTPException 500
                          (DetailStr (''Failed to update storage path: '' @ exn_str e))), w3))
              | Inr u \<Rightarrow>
                  (let w3 = w2\<lparr>pdfs := (\<lambda>k. if k = pdf_id
                                       then map_option (\<lambda>row. row\<lparr>pdf_storage_path := Some storage_path\<rparr>) (pdfs w2 k)
                                       else pdfs w2 k)\<rparr>
                   in case os_remove temp_filename w3 of
                        Inl e' \<Rightarrow> (Raised e', w3)
                      | Inr w4 \<Rightarrow> verify_download env file pdf_id upload_date storage_path w4)))"

definition upload_pdf :: "env \<Rightarrow> upload_file \<Rightarrow> world \<Rightarrow> response \<times> world" where
  "upload_pdf env file w =
     (if \<not> endswith (lower (filename file)) ''.pdf''
      then (Raised (HTTPException 400 (DetailStr ''Only PDF files are allowed.'')), w)
      else
        (let temp_filename = ''temp_'' @ uuid4 env @ ''.pdf'';
             w1 = write_file temp_filename w;
             upload_date = utcnow env;
             w2 = emit (DbInsertPdf (filename file)) w1
         in case db_insert_pdf env of
              Inl e \<Rightarrow>
                (let w3 = emit (Print (''Exception occurred: '' @ exn_str e)) w2
                 in case os_remove temp_filename w3 of
                      Inl e' \<Rightarrow> (Raised e', w3)
                    | Inr w4 \<Rightarrow>
                        (Raised (HTTPException 500 (DetailStr (''Database error: '' @ exn_str e))), w4))
            | Inr pdf_id \<Rightarrow>
                (let w3 = w2\<lparr>pdfs := (pdfs w2)(pdf_id \<mapsto>
                                \<lparr>pdf_name = filename file, pdf_upload_date = upload_date,
                                 pdf_storage_path = None\<rparr>)\<rparr>;
                     storage_path = pdf_id @ ''/'' @ filename file;
                     file_size = content_length file
                 in if exceeds_limit file_size
                    then (case os_remove temp_filename w3 of
                            Inl e' \<Rightarrow> (Raised e', w3)
                          | Inr w4 \<Rightarrow>
                              (Raised (HTTPException 413
                                 (too_large_detail ''File too large for Supabase free tier'' file_size)), w4))
                    else store_pdf env file pdf_id upload_date storage_path temp_filename w3)))"

section \<open>Concrete runs\<close>

text \<open>
  Inputs for evaluating the handler: services that all succeed on a document of two
  pages, an empty world, and variations of them.
\<close>

definition env_ok :: env where
  "env_ok =
     \<lparr>uuid4 = ''u1'', utcnow = ''2024-05-01T10:00:00'',
      db_insert_pdf = Inr ''7'', pdf_upload = UploadOk,
      db_set_storage_path = Inr (), pdf_download = Inr (), db_delete_pdf = Inr (),
      pdf_document = Document [PageOk, PageOk],
      image_upload = (\<lambda>p a. UploadOk),
      text_detection = (\<lambda>p. Inr [''hello'']),
      text_upload = (\<lambda>p a. UploadOk),
      encode = (\<lambda>t. []),
      db_insert_embedding = (\<lambda>n. Inr ())\<rparr>"

definition world0 :: world where
  "world0 = \<lparr>pdfs = Map.empty, embeddings = [], objects = [], local_files = [], events = []\<rparr>"

definition small_pdf :: upload_file where
  "small_pdf = \<lparr>filename = ''a.pdf'', content_length = 1000\<rparr>"

definition big_pdf :: upload_file where
  "big_pdf = \<lparr>filename = ''a.pdf'', content_length = 60000000\<rparr>"

definition big_txt :: upload_file where
  "big_txt = \<lparr>filename = ''a.txt'', content_length = 60000000\<rparr>"

definition env_db_down :: env where
  "env_db_down = env_ok\<lparr>db_insert_pdf := Inl (PyException ''connection refused'')\<rparr>"





definition env_image_error :: env where
  "env_image_error =
     env_ok\<lparr>pdf_document := Document [PageOk],
            image_upload := (\<lambda>p a. if a = 0 then UploadError ''rate limit'' else UploadOk)\<rparr>"


definition gen_exhausted :: "string \<Rightarrow> string \<Rightarrow> exn + string" where
  "gen_exhausted m prompt = Inl (ResourceExhausted ''429 quota exceeded'')"


text \<open>The pauses among a list of events, in order.\<close>

fun pauses :: "event list \<Rightarrow> nat list" where
  "pauses [] = []"
| "pauses (Sleep n # es) = n # pauses es"
| "pauses (e # es) = pauses es"

text \<open>The calls of the database and of the storage among a list of events, in order.\<close>

fun is_call :: "event \<Rightarrow> bool" where
  "is_call (LogInfo m) = False"
| "is_call (LogError m) = False"
| "is_call (Print m) = False"
| "is_call (Sleep n) = False"
| "is_call e = True"

definition service_calls :: "event list \<Rightarrow> event list" where
  "service_calls es = filter is_call es"

text \<open>The uploads to the storage among a list of events: bucket and path, in order.\<close>

fun storage_uploads :: "event list \<Rightarrow> (string \<times> string) list" where
  "storage_uploads [] = []"
| "storage_uploads (StorageUpload b p # es) = (b, p) # storage_uploads es"
| "storage_uploads (e # es) = storage_uploads es"



section \<open>Digits and file names: auxiliary facts\<close>

lemma digit_char_cases:
  assumes "d < (10::nat)"
  shows "d = 0 \<or> d = 1 \<or> d = 2 \<or> d = 3 \<or> d = 4 \<or> d = 5 \<or> d = 6 \<or> d = 7 \<or> d = 8 \<or> d = 9"
  using assms by arith

lemma is_digit_digit_char: "d < 10 \<Longrightarrow> is_digit (digit_char d)"
  using digit_char_cases [of d] by (auto simp: is_digit_def digit_char_def)

lemma digit_val_digit_char: "d < 10 \<Longrightarrow> digit_val (digit_char d) = d"
  using digit_char_cases [of d] by (auto simp: digit_val_def digit_char_def)

lemma show_nat_digits: "list_all is_digit (show_nat n)"
proof (induction n rule: show_nat.induct)
  case (1 n)
  show ?case
  proof (cases "n < 10")
    case True
    then show ?thesis by (simp add: show_nat.simps [of n] is_digit_digit_char)
  next
    case False
    then have "list_all is_digit (show_nat (n div 10))" using 1 by simp
    moreover have "is_digit (digit_char (n mod 10))" by (simp add: is_digit_digit_char)
    ultimately show ?thesis using False by (simp add: show_nat.simps [of n])
  qed
qed

lemma show_nat_nonempty: "show_nat n \<noteq> []"
  by (simp add: show_nat.simps [of n])

lemma digits_val_snoc: "digits_val (s @ [c]) = 10 * digits_val s + digit_val c"
  by (simp add: digits_val_def)

lemma digits_val_show_nat: "digits_val (show_nat n) = n"
proof (induction n rule: show_nat.induct)
  case (1 n)
  show ?case
  proof (cases "n < 10")
    case True
    then show ?thesis
      by (simp add: show_nat.simps [of n] digits_val_def digit_val_digit_char)
  next
    case False
    then have "digits_val (show_nat (n div 10)) = n div 10" using 1 by simp
    then show ?thesis using False
      by (simp add: show_nat.simps [of n] digits_val_snoc digit_val_digit_char)
  qed
qed

lemma digits_val_zeros: "digits_val (replicate k CHR ''0'' @ s) = digits_val s"
proof -
  have "foldl (\<lambda>a c. 10 * a + digit_val c) 0 (replicate k CHR ''0'') = 0"
    by (induction k) (simp_all add: digit_val_def)
  then show ?thesis by (simp add: digits_val_def)
qed

lemma fmt_03d_digits: "list_all is_digit (fmt_03d n)"
proof -
  have "list_all is_digit (replicate (3 - length (show_nat n)) CHR ''0'')"
    by (simp add: list_all_iff is_digit_def)
  then show ?thesis by (simp add: fmt_03d_def show_nat_digits)
qed

lemma fmt_03d_nonempty: "fmt_03d n \<noteq> []"
  by (simp add: fmt_03d_def show_nat_nonempty)

lemma digits_val_fmt_03d: "digits_val (fmt_03d n) = n"
  by (simp add: fmt_03d_def digits_val_zeros digits_val_show_nat)

section \<open>The rasterizer: auxiliary facts\<close>

lemma render_pages_all_ok:
  "list_all (\<lambda>p. p = PageOk) ps \<Longrightarrow>
   render_pages folder k ps acc =
     Inr (acc @ map (\<lambda>n. path_join folder (page_image_name n)) [k + 1..<k + 1 + length ps])"
proof (induction ps arbitrary: k acc)
  case Nil
  then show ?case by simp
next
  case (Cons p ps)
  then have p: "p = PageOk" and rest: "list_all (\<lambda>p. p = PageOk) ps" by simp_all
  have "[k + 1..<k + 1 + length (p # ps)] = (k + 1) # [k + 1 + 1..<k + 1 + 1 + length ps]"
    by (simp add: upt_rec)
  then show ?case
    using Cons.IH [OF rest, of "k + 1"] p by (simp add: page_image_name_def)
qed


lemma is_digit_not_slash: "is_digit c \<Longrightarrow> c \<noteq> CHR ''/''"
  by (auto simp: is_digit_def)


lemma page_image_name_no_slash: "CHR ''/'' \<notin> set (page_image_name n)"
  using fmt_03d_digits [of n] is_digit_not_slash
  by (auto simp: page_image_name_def list_all_iff)

lemma basename_append_slash:
  "CHR ''/'' \<notin> set name \<Longrightarrow> basename (a @ ''/'' @ name) = name"
  by (simp add: basename_def takeWhile_append)

lemma basename_no_slash:
  assumes "CHR ''/'' \<notin> set name"
  shows "basename name = name"
proof -
  have tw: "takeWhile (\<lambda>c. c \<noteq> CHR ''/'') (rev name) = rev name"
    using assms by auto
  show ?thesis unfolding basename_def tw by simp
qed

lemma basename_path_join:
  assumes "CHR ''/'' \<notin> set name" and "name \<noteq> []"
  shows "basename (path_join a name) = name"
proof -
  have nostart: "\<not> startswith name ''/''"
    using assms by (cases name) (auto simp: startswith_def)
  show ?thesis
  proof (cases "a = []")
    case True
    then show ?thesis using nostart assms by (simp add: path_join_def basename_no_slash)
  next
    case nonempty: False
    show ?thesis
    proof (cases "endswith a ''/''")
      case True
      then obtain b where b: "a = b @ ''/''"
        using nonempty by (cases a rule: rev_cases) (auto simp: endswith_def startswith_def)
      have "path_join a name = b @ ''/'' @ name"
        using True nostart by (simp add: path_join_def b)
      then show ?thesis
        using assms basename_append_slash [of name b] by simp
    next
      case False
      then show ?thesis
        using nonempty nostart assms basename_append_slash [of name a]
        by (simp add: path_join_def)
    qed
  qed
qed

lemma foldr_push_digits:
  "ds \<noteq> [] \<Longrightarrow> list_all is_digit ds \<Longrightarrow>
   foldr push_char ds (Text t # r) = Digits ds # Text t # r"
proof (induction ds)
  case Nil
  then show ?case by simp
next
  case (Cons d ds)
  then show ?case by (cases "ds = []") auto
qed

lemma natural_key_page_image_name:
  "natural_key (page_image_name n) = [Text ''page_'', Digits (fmt_03d n), Text ''.jpg'']"
proof -
  have jpg: "foldr push_char ''.jpg'' [] = [Text ''.jpg'']"
    by (simp add: is_digit_def)
  have "foldr push_char (fmt_03d n) [Text ''.jpg''] = [Digits (fmt_03d n), Text ''.jpg'']"
    using foldr_push_digits [OF fmt_03d_nonempty fmt_03d_digits] by simp
  then show ?thesis
    by (simp add: natural_key_def page_image_name_def jpg is_digit_def)
qed

lemma natural_less_page_image_name:
  "natural_less (page_image_name m) (page_image_name n) = (m < n)"
  by (simp add: natural_less_def natural_key_page_image_name digits_val_fmt_03d)

lemma sorted_page_image_names:
  "sorted_wrt natural_less (map page_image_name [a..<b])"
proof -
  have "sorted_wrt (<) [a..<b]" by simp
  then have "sorted_wrt (\<lambda>m n. natural_less (page_image_name m) (page_image_name n)) [a..<b]"
    by (simp add: natural_less_page_image_name)
  then show ?thesis by (simp add: sorted_wrt_map)
qed

section \<open>Events: auxiliary facts\<close>

lemmas world_ops = emit_def write_file_def os_remove_def

lemma service_calls_append: "service_calls (xs @ ys) = service_calls xs @ service_calls ys"
  by (simp add: service_calls_def)

lemma storage_uploads_append: "storage_uploads (xs @ ys) = storage_uploads xs @ storage_uploads ys"
  by (induction xs rule: storage_uploads.induct) simp_all


lemma show_nat_50: "show_nat 50 = ''50''"
  by (simp add: show_nat.simps digit_char_def)

section \<open>Lexicographic order of the image names: auxiliary facts\<close>

lemma of_char_digit_char: "d < 10 \<Longrightarrow> (of_char (digit_char d) :: nat) = 48 + d"
  using digit_char_cases [of d] by (auto simp: digit_char_def)

lemma fmt_03d_three:
  assumes "n < 1000"
  shows "fmt_03d n = [digit_char (n div 100), digit_char (n div 10 mod 10), digit_char (n mod 10)]"
proof -
  have zero: "digit_char 0 = CHR ''0''"
    by (simp add: digit_char_def)
  consider "n < 10" | "10 \<le> n" "n < 100" | "100 \<le> n"
    by linarith
  then show ?thesis
  proof cases
    case 1
    then have "show_nat n = [digit_char n]"
      by (simp add: show_nat.simps [of n])
    then show ?thesis
      using 1 by (simp add: fmt_03d_def zero numeral_2_eq_2)
  next
    case 2
    then have "n div 10 < 10" by simp
    then have "show_nat n = [digit_char (n div 10), digit_char (n mod 10)]"
      using 2 by (simp add: show_nat.simps [of n] show_nat.simps [of "n div 10"])
    moreover have "n div 100 = 0" "n div 10 mod 10 = n div 10"
      using 2 by simp_all
    ultimately show ?thesis
      by (simp add: fmt_03d_def zero)
  next
    case 3
    then have a: "\<not> n < 10" "\<not> n div 10 < 10" "n div 10 div 10 < 10"
      using assms by simp_all
    have "n div 10 div 10 = n div 100"
      by (simp add: div_mult2_eq [symmetric])
    then have "show_nat n = [digit_char (n div 100), digit_char (n div 10 mod 10), digit_char (n mod 10)]"
      using a
      by (simp add: show_nat.simps [of n] show_nat.simps [of "n div 10"]
            show_nat.simps [of "n div 100"])
    then show ?thesis
      by (simp add: fmt_03d_def)
  qed
qed

lemma digits_order:
  assumes "m < (n::nat)"
  shows "m div 100 < n div 100
     \<or> (m div 100 = n div 100 \<and> (m div 10 mod 10 < n div 10 mod 10
         \<or> (m div 10 mod 10 = n div 10 mod 10 \<and> m mod 10 < n mod 10)))"
proof -
  have split: "\<And>k::nat. k = 100 * (k div 100) + 10 * (k div 10 mod 10) + k mod 10"
  proof -
    fix k :: nat
    have "k div 10 div 10 = k div 100"
      by (simp add: div_mult2_eq [symmetric])
    then have "k div 10 = 10 * (k div 100) + k div 10 mod 10"
      by (metis mult_div_mod_eq)
    moreover have "k = 10 * (k div 10) + k mod 10"
      by simp
    ultimately show "k = 100 * (k div 100) + 10 * (k div 10 mod 10) + k mod 10"
      by linarith
  qed
  have bounds: "m div 10 mod 10 < 10" "n div 10 mod 10 < 10" "m mod 10 < 10" "n mod 10 < 10"
    by simp_all
  show ?thesis
    using assms split [of m] split [of n] bounds by linarith
qed

lemma text_less_page_image_name:
  assumes "m < n" and "n < 1000"
  shows "text_less (page_image_name m) (page_image_name n)"
proof -
  have m: "m < 1000" using assms by simp
  have b: "m div 100 < 10" "n div 100 < 10" "m div 10 mod 10 < 10" "n div 10 mod 10 < 10"
      "m mod 10 < 10" "n mod 10 < 10"
    using assms by simp_all
  have eq: "\<And>a b. a < 10 \<Longrightarrow> b < 10 \<Longrightarrow> (digit_char a = digit_char b) = (a = b)"
    using of_char_digit_char by (metis add_left_cancel)
  show ?thesis
    using digits_order [OF assms(1)]
    by (simp add: page_image_name_def fmt_03d_three [OF m] fmt_03d_three [OF assms(2)]
          of_char_digit_char b eq)
qed

lemma sorted_lexicographic:
  assumes "b \<le> 1000"
  shows "sorted_wrt text_less (map page_image_name [a..<b])"
proof -
  have "sorted_wrt (\<lambda>m n. m < n \<and> n < 1000) [a..<b]"
    using assms by (auto simp: sorted_wrt_iff_nth_less)
  then have "sorted_wrt (\<lambda>m n. text_less (page_image_name m) (page_image_name n)) [a..<b]"
    by (rule sorted_wrt_mono_rel [rotated]) (simp add: text_less_page_image_name)
  then show ?thesis by (simp add: sorted_wrt_map)
qed

lemma lexicographic_limit: "text_less (page_image_name 1000) (page_image_name 999)"
  by (simp add: page_image_name_def fmt_03d_def show_nat.simps digit_char_def)


section \<open>Local files and the conversion: auxiliary facts\<close>








section \<open>Retries, names of text files and page numbers: auxiliary facts\<close>

lemma attempts_list: "[0..<max_retries] = [0, 1, 2]"
  by (simp add: max_retries_def upt_rec)












lemma pauses_append: "pauses (xs @ ys) = pauses xs @ pauses ys"
  by (induction xs rule: pauses.induct) simp_all


lemma raising_attempts_back_off:
  assumes "local_path \<in> set (local_files w)"
    and "upload 0 = UploadRaises e0" and "upload 1 = UploadRaises e1" and "upload 2 = UploadRaises e2"
  shows "pauses (events (fst (upload_with_retry kind bucket upload local_path name storage_path
            [0..<max_retries] (w, uploaded)))) = pauses (events w) @ [1, 2]"
    and "snd (upload_with_retry kind bucket upload local_path name storage_path
            [0..<max_retries] (w, uploaded)) = uploaded"
    and "last (events (fst (upload_with_retry kind bucket upload local_path name storage_path
            [0..<max_retries] (w, uploaded)))) = LogError (exhausted_msg kind name)"
  unfolding attempts_list
  using assms
  by (simp_all add: upload_attempt_def after_exception_def max_retries_def
        emit_def Let_def pauses_append)

section \<open>A run over a valid PDF: auxiliary facts\<close>

lemma upload_pdf_reaches_ingest:
  assumes "endswith (lower (filename file)) ''.pdf''"
    and "db_insert_pdf env = Inr pdf_id"
    and "\<not> exceeds_limit (content_length file)"
    and "pdf_upload env = UploadOk"
    and "db_set_storage_path env = Inr ()"
    and "pdf_download env = Inr ()"
  shows "\<exists>W. upload_pdf env file w =
            ingest_pages env file pdf_id (utcnow env) (pdf_id @ ''/'' @ filename file) W
         \<and> set (local_files W) =
             insert (pdf_id @ ''_'' @ filename file) (set (local_files w) - {''temp_'' @ uuid4 env @ ''.pdf''})
         \<and> events W = events w @
             [DbInsertPdf (filename file), StorageUpload ''pdfs'' (pdf_id @ ''/'' @ filename file),
              DbUpdatePdf pdf_id, StorageDownload ''pdfs'' (pdf_id @ ''/'' @ filename file),
              LogInfo (''Successfully downloaded PDF for processing: '' @ filename file)]
         \<and> embeddings W = embeddings w
         \<and> objects W = objects w @ [(''pdfs'', pdf_id @ ''/'' @ filename file)]"
  using assms
  apply (simp add: upload_pdf_def store_pdf_def upload_pdf_body_def verify_download_def Let_def
        world_ops)
  apply (rule exI, rule conjI, rule refl)
  apply simp
  done








section \<open>The text recognizer never raises\<close>

text \<open>
  Claim C4. For every image input, whatever reading the file and the OCR service do,
  \<open>extract_text_from_image\<close> returns a string and raises nothing: the description of the
  first annotation when there is one, the sentinel \<^verbatim>\<open>No text found in image\<close> when
  the service finds no text, and a string that describes the error when reading the file
  or the service raises.
\<close>

theorem recognizer_never_raises:
  "\<exists>s. extract_text_from_image file_read detection = Inr s \<and>
     ((\<exists>t ts. file_read = Inr () \<and> detection = Inr (t # ts) \<and> s = t)
      \<or> (file_read = Inr () \<and> detection = Inr [] \<and> s = ''No text found in image'')
      \<or> (\<exists>e. (file_read = Inl e \<or> (file_read = Inr () \<and> detection = Inl e))
              \<and> s = ''Error processing image: '' @ exn_str e))"
  by (cases file_read; cases detection; cases "projr detection")
     (auto simp: extract_text_from_image_def extract_text_body_def)

section \<open>The answer synthesizer and the quota\<close>



text \<open>
  Claim C8. When the requested model is the fallback model itself and raises a
  resource-exhaustion error, \<open>ask_gemini\<close> makes no second call: the only model called is
  Flash-Lite, and the result is the rate-limit message that names the Flash-Lite quota.
\<close>

theorem flash_lite_quota_no_fallback:
  assumes "generate flash_lite (build_prompt question context) = Inl (ResourceExhausted m)"
  shows "ask_gemini generate question context flash_lite = (Inr sorry_lite, [flash_lite])
    \<and> contains sorry_lite ''(Flash-Lite quota exceeded.)''"
  using assms by (simp add: ask_gemini_def sorry_lite_def startswith_def)

theorem flash_lite_quota_no_fallback_witness:
  "gen_exhausted flash_lite (build_prompt ''Capital of France?'' ''Paris is the capital.'')
     = Inl (ResourceExhausted ''429 quota exceeded'')
   \<and> ask_gemini gen_exhausted ''Capital of France?'' ''Paris is the capital.'' flash_lite
     = (Inr sorry_lite, [flash_lite])"
proof -
  have q: "gen_exhausted flash_lite (build_prompt ''Capital of France?'' ''Paris is the capital.'')
             = Inl (ResourceExhausted ''429 quota exceeded'')"
    by (simp add: gen_exhausted_def)
  show ?thesis
    using q flash_lite_quota_no_fallback [of gen_exhausted "''Capital of France?''"
        "''Paris is the capital.''" "''429 quota exceeded''"]
    by simp
qed

section \<open>One image per page\<close>

text \<open>
  Claim C5. For every valid PDF (the file exists, the document opens and every page
  renders), \<open>convert_pdf_to_images\<close> returns exactly one image path per page. The image
  of the page with 1-based number \<open>n\<close> is the \<open>n\<close>-th path, and its file name is
  \<^verbatim>\<open>page_\<close>, the number padded with zeros to three digits, and \<^verbatim>\<open>.jpg\<close>. In natural
  sort order, where a run of digits counts as a number, the file names increase along the
  list, so sorting them gives the page order. In the plain order of strings they increase
  as well as long as the document has at most 999 pages; the name of page 1000 has four
  digits and comes before that of page 999 (\<open>lexicographic_limit\<close>).
\<close>

theorem rasterize_one_image_per_page:
  assumes "pdf_exists" and "valid_pdf doc"
  shows "\<exists>r. convert_pdf_to_images pdf_exists doc pdf_path output_folder = Inr r
    \<and> length (image_paths r) = page_count doc
    \<and> image_paths r = map (\<lambda>n. path_join output_folder (page_image_name n)) [1..<page_count doc + 1]
    \<and> map basename (image_paths r) = map page_image_name [1..<page_count doc + 1]
    \<and> sorted_wrt natural_less (map basename (image_paths r))
    \<and> (page_count doc \<le> 999 \<longrightarrow> sorted_wrt text_less (map basename (image_paths r)))
    \<and> written r = image_paths r"
proof -
  obtain pages where doc: "doc = Document pages" and ok: "list_all (\<lambda>p. p = PageOk) pages"
    using assms(2) by (cases doc) (auto simp: valid_pdf_def)
  let ?paths = "map (\<lambda>n. path_join output_folder (page_image_name n)) [1..<length pages + 1]"
  have rp: "render_pages output_folder 0 pages [] = Inr ?paths"
    using render_pages_all_ok [OF ok, of output_folder 0 "[]"] by simp
  have bn: "map basename ?paths = map page_image_name [1..<length pages + 1]"
    using basename_path_join [OF page_image_name_no_slash]
    by (simp add: page_image_name_def)
  have srt: "sorted_wrt natural_less (map basename ?paths)"
    unfolding bn by (rule sorted_page_image_names)
  have lex: "length pages \<le> 999 \<longrightarrow> sorted_wrt text_less (map basename ?paths)"
    unfolding bn using sorted_lexicographic [of "length pages + 1" 1] by simp
  let ?r = "\<lparr>image_paths = ?paths, written = ?paths,
             printed = ''Successfully converted '' @ show_nat (length ?paths)
                       @ '' pages to images in '' @ output_folder\<rparr>"
  have conv: "convert_pdf_to_images pdf_exists doc pdf_path output_folder = Inr ?r"
    using assms(1) doc rp by (simp add: convert_pdf_to_images_def)
  have pc: "page_count doc = length pages"
    using doc by (simp add: page_count_def)
  have lp: "length ?paths = length pages"
    by (simp only: length_map length_upt add_diff_cancel_right')
  have len: "length (image_paths ?r) = page_count doc"
    unfolding pc by (simp only: raster_result.select_convs lp)
  show ?thesis
    apply (rule exI [of _ ?r])
    unfolding pc
    using conv len bn srt lex pc by simp
qed

theorem rasterize_one_image_per_page_witness:
  "valid_pdf (Document [PageOk, PageOk, PageOk])
   \<and> map_sum id image_paths
        (convert_pdf_to_images True (Document [PageOk, PageOk, PageOk]) ''7_a.pdf'' ''images/7'')
       = Inr [''images/7/page_001.jpg'', ''images/7/page_002.jpg'', ''images/7/page_003.jpg'']
   \<and> natural_less ''page_001.jpg'' ''page_002.jpg''
   \<and> natural_less ''page_002.jpg'' ''page_003.jpg''"
proof -
  have v: "valid_pdf (Document [PageOk, PageOk, PageOk])"
    by (simp add: valid_pdf_def)
  have names: "map page_image_name [1..<page_count (Document [PageOk, PageOk, PageOk]) + 1]
                 = [''page_001.jpg'', ''page_002.jpg'', ''page_003.jpg'']"
    by (simp add: page_count_def upt_rec page_image_name_def fmt_03d_def show_nat.simps
          digit_char_def numeral_2_eq_2)
  have paths: "map (\<lambda>n. path_join ''images/7'' (page_image_name n))
                 [1..<page_count (Document [PageOk, PageOk, PageOk]) + 1]
                 = [''images/7/page_001.jpg'', ''images/7/page_002.jpg'', ''images/7/page_003.jpg'']"
    by (simp add: page_count_def upt_rec page_image_name_def fmt_03d_def show_nat.simps
          digit_char_def numeral_2_eq_2 path_join_def startswith_def endswith_def)
  obtain r where r: "convert_pdf_to_images True (Document [PageOk, PageOk, PageOk])
                       ''7_a.pdf'' ''images/7'' = Inr r"
      "image_paths r = [''images/7/page_001.jpg'', ''images/7/page_002.jpg'', ''images/7/page_003.jpg'']"
      "sorted_wrt natural_less [''page_001.jpg'', ''page_002.jpg'', ''page_003.jpg'']"
    using rasterize_one_image_per_page [OF TrueI v, of "''7_a.pdf''" "''images/7''"]
    unfolding names paths by metis
  show ?thesis
    using v r by simp
qed

section \<open>The size limit of the upload\<close>

text \<open>
  Claim C9. When a file with a PDF name, for which the row of the document has been
  inserted, is rejected with the status 413 because its size exceeds the limit, the row
  is not deleted: after the request the table holds the row of the new id, without a
  storage path; the only call of a service in the request is the insert; and the storage
  holds no new object.
\<close>

theorem oversized_upload_leaves_row:
  assumes "endswith (lower (filename file)) ''.pdf''"
    and "db_insert_pdf env = Inr pdf_id"
    and "exceeds_limit (content_length file)"
  shows "status_code (fst (upload_pdf env file w)) = 413
    \<and> pdfs (snd (upload_pdf env file w)) pdf_id =
        Some \<lparr>pdf_name = filename file, pdf_upload_date = utcnow env, pdf_storage_path = None\<rparr>
    \<and> service_calls (events (snd (upload_pdf env file w))) =
        service_calls (events w) @ [DbInsertPdf (filename file)]
    \<and> objects (snd (upload_pdf env file w)) = objects w"
  using assms
  by (simp add: upload_pdf_def world_ops Let_def service_calls_append service_calls_def)

theorem oversized_upload_leaves_row_witness:
  "endswith (lower (filename big_pdf)) ''.pdf''
   \<and> db_insert_pdf env_ok = Inr ''7''
   \<and> exceeds_limit (content_length big_pdf)
   \<and> status_code (fst (upload_pdf env_ok big_pdf world0)) = 413
   \<and> pdfs (snd (upload_pdf env_ok big_pdf world0)) ''7'' =
        Some \<lparr>pdf_name = ''a.pdf'', pdf_upload_date = ''2024-05-01T10:00:00'',
              pdf_storage_path = None\<rparr>
   \<and> service_calls (events (snd (upload_pdf env_ok big_pdf world0))) = [DbInsertPdf ''a.pdf'']
   \<and> objects (snd (upload_pdf env_ok big_pdf world0)) = []"
proof -
  have h1: "endswith (lower (filename big_pdf)) ''.pdf''"
    by (simp add: big_pdf_def endswith_def startswith_def lower_def lower_char_def)
  have h2: "db_insert_pdf env_ok = Inr ''7''"
    by (simp add: env_ok_def)
  have h3: "exceeds_limit (content_length big_pdf)"
    by (simp add: big_pdf_def exceeds_limit_def supabase_free_tier_limit_mb_def)
  show ?thesis
    using h1 h2 h3 oversized_upload_leaves_row [OF h1 h2 h3, of world0]
    by (simp add: big_pdf_def env_ok_def world0_def service_calls_def)
qed

text \<open>
  Claim C3, as the code has it. The extension check and the insert of the row come
  before the size check. For every uploaded file whose size exceeds the limit of 50 MB:
  when its name ends in \<^verbatim>\<open>.pdf\<close> (in any case of letters) and the insert of the row
  succeeds, the handler raises an \<^verbatim>\<open>HTTPException\<close> with the status 413 whose detail
  holds \<^verbatim>\<open>file_size_mb\<close>, \<^verbatim>\<open>supabase_free_tier_limit\<close>, a message and a solution;
  and in every case no upload to the storage is called and the storage holds no new object.
\<close>

theorem oversized_upload_rejected:
  assumes "exceeds_limit (content_length file)"
  shows "(endswith (lower (filename file)) ''.pdf'' \<and> db_insert_pdf env = Inr pdf_id \<longrightarrow>
       (\<exists>kvs. fst (upload_pdf env file w) = Raised (HTTPException 413 (DetailDict kvs))
          \<and> map_of kvs ''file_size_mb'' = Some (fmt_1f_mb (content_length file) @ ''MB'')
          \<and> map_of kvs ''supabase_free_tier_limit'' = Some ''50MB''
          \<and> map_of kvs ''message'' =
               Some (''Your file ('' @ fmt_1f_mb (content_length file)
                     @ ''MB) exceeds the Supabase free tier limit of 50MB per file.'')
          \<and> map_of kvs ''solution'' =
               Some ''Upgrade to Supabase Pro ($25/month) for 5GB file limits''))
    \<and> storage_uploads (events (snd (upload_pdf env file w))) = storage_uploads (events w)
    \<and> objects (snd (upload_pdf env file w)) = objects w"
proof -
  have a: "storage_uploads (events (snd (upload_pdf env file w))) = storage_uploads (events w)
    \<and> objects (snd (upload_pdf env file w)) = objects w"
    using assms
    by (cases "db_insert_pdf env")
       (simp_all add: upload_pdf_def world_ops Let_def storage_uploads_append)
  have b: "endswith (lower (filename file)) ''.pdf'' \<and> db_insert_pdf env = Inr pdf_id \<longrightarrow>
       fst (upload_pdf env file w) = Raised (HTTPException 413
          (too_large_detail ''File too large for Supabase free tier'' (content_length file)))"
    using assms by (simp add: upload_pdf_def world_ops Let_def)
  show ?thesis
    using a b
    by (auto simp: too_large_detail_def supabase_free_tier_limit_mb_def show_nat_50)
qed

theorem oversized_upload_rejected_witness:
  "exceeds_limit (content_length big_pdf)
   \<and> endswith (lower (filename big_pdf)) ''.pdf''
   \<and> db_insert_pdf env_ok = Inr ''7''
   \<and> fst (upload_pdf env_ok big_pdf world0) =
       Raised (HTTPException 413
         (DetailDict
            [(''error'', ''File too large for Supabase free tier''),
             (''file_size_mb'', ''57.2MB''),
             (''supabase_free_tier_limit'', ''50MB''),
             (''message'', ''Your file (57.2MB) exceeds the Supabase free tier limit of 50MB per file.''),
             (''solution'', ''Upgrade to Supabase Pro ($25/month) for 5GB file limits'')]))
   \<and> storage_uploads (events (snd (upload_pdf env_ok big_pdf world0))) = []
   \<and> objects (snd (upload_pdf env_ok big_pdf world0)) = []"
proof -
  have h1: "endswith (lower (filename big_pdf)) ''.pdf''"
    by (simp add: big_pdf_def endswith_def startswith_def lower_def lower_char_def)
  have h2: "db_insert_pdf env_ok = Inr ''7''"
    by (simp add: env_ok_def)
  have h3: "exceeds_limit (content_length big_pdf)"
    by (simp add: big_pdf_def exceeds_limit_def supabase_free_tier_limit_mb_def)
  have f: "fmt_1f_mb (content_length big_pdf) = ''57.2''"
    by (simp add: big_pdf_def fmt_1f_mb_def Let_def show_nat.simps digit_char_def)
  have d: "fst (upload_pdf env_ok big_pdf world0) =
             Raised (HTTPException 413
               (too_large_detail ''File too large for Supabase free tier'' (content_length big_pdf)))"
    using h1 h3 by (simp add: upload_pdf_def world_ops Let_def env_ok_def world0_def)
  have e: "objects world0 = []" "events world0 = []"
    by (simp_all add: world0_def)
  show ?thesis
    using h1 h2 h3 oversized_upload_rejected [OF h3, of env_ok "''7''" world0]
    by (simp add: d f e too_large_detail_def supabase_free_tier_limit_mb_def show_nat_50)
qed

text \<open>
  The claim as the specification states it fails: a file over the limit whose name does
  not end in \<^verbatim>\<open>.pdf\<close> gets the status 400, and a PDF over the limit whose row cannot be
  inserted gets the status 500.
\<close>

theorem oversized_upload_counterexample:
  "exceeds_limit (content_length big_txt)
   \<and> status_code (fst (upload_pdf env_ok big_txt world0)) = 400
   \<and> exceeds_limit (content_length big_pdf)
   \<and> status_code (fst (upload_pdf env_db_down big_pdf world0)) = 500"
  by (simp add: upload_pdf_def world_ops Let_def big_txt_def big_pdf_def env_db_down_def
        env_ok_def world0_def exceeds_limit_def supabase_free_tier_limit_mb_def
        endswith_def startswith_def lower_def lower_char_def)

section \<open>Failures of the storage and of the conversion\<close>







section \<open>The page number of an embedding record\<close>



section \<open>Retries of an upload\<close>

text \<open>
  Claim C7. The code tries an upload of the page loop up to three times, and its
  \<^verbatim>\<open>except\<close> clause pauses for 1 and then 2 seconds before the next attempt. The branch
  for an upload that returns a result with an \<^verbatim>\<open>error\<close> attribute goes to the next
  attempt with \<^verbatim>\<open>continue\<close> and does not pause, which is not what the claim says. The
  run below is an upload of a PDF of one page whose image upload returns such a result at
  the first attempt and succeeds at the second: the image is uploaded twice, the handler
  never pauses, and the response is the success response.
\<close>

theorem error_result_retried_without_pause:
  "image_upload env_image_error ''7/page_001.jpg'' 0 = UploadError ''rate limit''
   \<and> storage_uploads (events (snd (upload_pdf env_image_error small_pdf world0))) =
       [(''pdfs'', ''7/a.pdf''), (''pdfimg'', ''7/page_001.jpg''), (''pdfimg'', ''7/page_001.jpg''),
        (''pdftxt'', ''7/page_001_text.txt'')]
   \<and> pauses (events (snd (upload_pdf env_image_error small_pdf world0))) = []
   \<and> status_code (fst (upload_pdf env_image_error small_pdf world0)) = 200"
proof -
  have first: "image_upload env_image_error ''7/page_001.jpg'' 0 = UploadError ''rate limit''"
    by (simp add: env_image_error_def env_ok_def)
  have h1: "endswith (lower (filename small_pdf)) ''.pdf''"
    by (simp add: small_pdf_def endswith_def startswith_def lower_def lower_char_def)
  have h2: "db_insert_pdf env_image_error = Inr ''7''"
    and h4: "pdf_upload env_image_error = UploadOk"
    and h5: "db_set_storage_path env_image_error = Inr ()"
    and h6: "pdf_download env_image_error = Inr ()"
    by (simp_all add: env_image_error_def env_ok_def)
  have h3: "\<not> exceeds_limit (content_length small_pdf)"
    by (simp add: small_pdf_def exceeds_limit_def supabase_free_tier_limit_mb_def)
  obtain W where run: "upload_pdf env_image_error small_pdf world0 =
      ingest_pages env_image_error small_pdf ''7'' (utcnow env_image_error)
        (''7'' @ ''/'' @ filename small_pdf) W"
    and files: "set (local_files W) =
        insert (''7'' @ ''_'' @ filename small_pdf)
          (set (local_files world0) - {''temp_'' @ uuid4 env_image_error @ ''.pdf''})"
    and ev: "events W = events world0 @
        [DbInsertPdf (filename small_pdf),
         StorageUpload ''pdfs'' (''7'' @ ''/'' @ filename small_pdf),
         DbUpdatePdf ''7'', StorageDownload ''pdfs'' (''7'' @ ''/'' @ filename small_pdf),
         LogInfo (''Successfully downloaded PDF for processing: '' @ filename small_pdf)]"
    using upload_pdf_reaches_ingest [OF h1 h2 h3 h4 h5 h6, of world0] by blast
  have files': "set (local_files W) = {''7_a.pdf''}"
    using files by (simp add: small_pdf_def world0_def)
  have ev': "storage_uploads (events W) = [(''pdfs'', ''7/a.pdf'')]" "pauses (events W) = []"
    unfolding ev by (simp_all add: small_pdf_def world0_def)
  have page: "fmt_03d (Suc 0) = ''001''"
    by (simp add: fmt_03d_def show_nat.simps digit_char_def numeral_2_eq_2)
  have conv: "convert_pdf_to_images True (Document [PageOk]) ''7_a.pdf'' ''images/7'' =
     Inr \<lparr>image_paths = [''images/7/page_001.jpg''], written = [''images/7/page_001.jpg''],
          printed = ''Successfully converted 1 pages to images in images/7''\<rparr>"
    by (simp add: convert_pdf_to_images_def page path_join_def startswith_def endswith_def
          show_nat.simps digit_char_def)
  have "storage_uploads (events (snd (ingest_pages env_image_error small_pdf ''7''
            (utcnow env_image_error) (''7'' @ ''/'' @ filename small_pdf) W))) =
          storage_uploads (events W) @
            [(''pdfimg'', ''7/page_001.jpg''), (''pdfimg'', ''7/page_001.jpg''),
             (''pdftxt'', ''7/page_001_text.txt'')]
      \<and> pauses (events (snd (ingest_pages env_image_error small_pdf ''7''
            (utcnow env_image_error) (''7'' @ ''/'' @ filename small_pdf) W))) = pauses (events W)
      \<and> status_code (fst (ingest_pages env_image_error small_pdf ''7''
            (utcnow env_image_error) (''7'' @ ''/'' @ filename small_pdf) W)) = 200"
    using files'
    apply (simp add: ingest_pages_def env_image_error_def env_ok_def small_pdf_def conv Let_def)
    apply (simp add: attempts_list basename_def)
    apply (simp add: upload_attempt_def after_exception_def max_retries_def emit_def
        write_file_def Let_def)
    apply (simp add: process_text_page_def extract_text_from_image_def extract_text_body_def
        txt_name_of_def basename_def splitext_root_def Let_def attempts_list path_join_def
        startswith_def endswith_def write_file_def)
    apply (simp add: upload_attempt_def after_exception_def max_retries_def emit_def
        write_file_def Let_def rmtree_def os_remove_def startswith_def storage_uploads_append
        pauses_append)
    done
  then show ?thesis
    using first unfolding run by (simp add: ev')
qed


end
